theory Spec2Isabelle
  imports Main "HOL-Library.Sublist"
begin

section \<open>Restaurant search controller: \<^verbatim>\<open>src/restaurant/restaurant.controller.ts\<close>\<close>

text \<open>
  The development embeds the two AI search handlers of \<^verbatim>\<open>RestaurantController\<close>,
  \<^verbatim>\<open>aiSearch\<close> and \<^verbatim>\<open>aiImageSearch\<close>. JavaScript strings are modelled as
  \<^typ>\<open>string\<close> (lists of 8-bit characters), restaurant ids as unbounded \<^typ>\<open>int\<close>
  (JavaScript numbers agree with this on the safe integers, which is what a generated
  primary key is: beyond them \<^verbatim>\<open>parseInt\<close> rounds and \<^verbatim>\<open>toString\<close> switches to the
  exponent form), and every \<^verbatim>\<open>throw\<close> or rejected promise as the left injection of a
  sum. The collaborators of the controller (the restaurant service, the search engine, the
  file system, the clock) are parameters of the handlers; a handler takes the world before
  the request and returns its outcome with the world after it.
\<close>

subsection \<open>Numbers and text: \<^verbatim>\<open>Number.prototype.toString\<close> and \<^verbatim>\<open>parseInt\<close>\<close>

text \<open>The character of a digit value in radix up to 16, lower case as JavaScript prints it.\<close>

definition digit_char :: "nat \<Rightarrow> char" where
  "digit_char d = ''0123456789abcdef'' ! d"

text \<open>The digit value of a character as \<^verbatim>\<open>parseInt\<close> reads it (both letter cases).\<close>

definition digit_table :: "(char \<times> nat) list" where
  "digit_table =
    zip ''0123456789abcdefABCDEF''
      [0, 1, 2, 3, 4, 5, 6, 7, 8, 9, 10, 11, 12, 13, 14, 15, 10, 11, 12, 13, 14, 15]"

definition digit_value :: "char \<Rightarrow> nat option" where
  "digit_value c = map_of digit_table c"

definition is_radix_digit :: "nat \<Rightarrow> char \<Rightarrow> bool" where
  "is_radix_digit R c = (case digit_value c of None \<Rightarrow> False | Some v \<Rightarrow> v < R)"

text \<open>
  The white space \<^verbatim>\<open>parseInt\<close> skips, as far as it fits in one byte: TAB, LF, VT, FF, CR,
  SP and NBSP.
\<close>

definition is_white_space :: "char \<Rightarrow> bool" where
  "is_white_space c = (of_char c \<in> {9, 10, 11, 12, 13, 32, 160 :: nat})"

text \<open>The decimal digits of a natural number, most significant first, no leading zero.\<close>

function nat_digits :: "nat \<Rightarrow> string" where
  "nat_digits n =
    (if n < 10 then [digit_char n] else nat_digits (n div 10) @ [digit_char (n mod 10)])"
  by pat_completeness auto
termination
  by (relation "measure (\<lambda>n. n)") auto

declare nat_digits.simps [simp del]

text \<open>\<^verbatim>\<open>r.id.toString()\<close> and \<^verbatim>\<open>`${r.id}`\<close> for an integer-valued number.\<close>

definition toString :: "int \<Rightarrow> string" where
  "toString n = (if n < 0 then CHR ''-'' # nat_digits (nat (- n)) else nat_digits (nat n))"

text \<open>The value of a digit string in radix \<open>R\<close>, read left to right.\<close>

definition digits_value :: "nat \<Rightarrow> string \<Rightarrow> nat" where
  "digits_value R Z = foldl (\<lambda>acc c. acc * R + (case digit_value c of None \<Rightarrow> 0 | Some v \<Rightarrow> v)) 0 Z"

text \<open>
  \<^verbatim>\<open>parseInt(s)\<close> with no radix argument: leading white space is skipped, one sign is read,
  a \<^verbatim>\<open>0x\<close> or \<^verbatim>\<open>0X\<close> prefix switches to radix 16, the longest prefix of digits is
  converted, and the rest of the text is ignored. \<^verbatim>\<open>NaN\<close> is \<^const>\<open>None\<close>.
\<close>

definition parseInt :: "string \<Rightarrow> int option" where
  "parseInt s =
    (let S = dropWhile is_white_space s;
         neg = (S \<noteq> [] \<and> hd S = CHR ''-'');
         S1 = (if S \<noteq> [] \<and> (hd S = CHR ''+'' \<or> hd S = CHR ''-'') then tl S else S);
         hex = (take 2 S1 = ''0x'' \<or> take 2 S1 = ''0X'');
         R = (if hex then 16 else 10);
         S2 = (if hex then drop 2 S1 else S1);
         Z = takeWhile (is_radix_digit R) S2
     in if Z = [] then None
        else Some (if neg then - int (digits_value R Z) else int (digits_value R Z)))"

subsection \<open>Data\<close>

text \<open>
  Modelled from the spec: the classes \<^verbatim>\<open>RestaurantResponseDto\<close>, \<^verbatim>\<open>AiRestaurantSearchDto\<close>,
  \<^verbatim>\<open>ImageSearchDto\<close> and the response type of \<^verbatim>\<open>SupraSearchEngine.search\<close> are imported
  by the controller and not part of the file. The records below carry the fields the
  controller reads (\<^verbatim>\<open>r.id\<close>, \<^verbatim>\<open>r.name\<close>, \<^verbatim>\<open>r.dishes\<close>, \<^verbatim>\<open>d.name\<close>, \<^verbatim>\<open>d.price\<close>, ...);
  every further field of a restaurant or a dish lives in the extension part of the record
  scheme, so that the spread \<^verbatim>\<open>{...r, dishes: filteredDishes}\<close> is a record update.
  The price is a JavaScript number that is only passed on, hence a type parameter.
\<close>

record 'p dish =
  d_name :: string
  d_price :: 'p

record 'd restaurant =
  r_id :: int
  r_name :: string
  dishes :: "'d list"

text \<open>The object literal built in the \<^verbatim>\<open>flatMap\<close> of both handlers.\<close>

record 'p flat_record =
  restaurant_id :: string
  restaurant_name :: string
  dish_name :: string
  dish_price :: 'p

text \<open>One element of \<^verbatim>\<open>aiResponse.data.results\<close>; the controller reads two text fields.\<close>

record ai_result =
  res_restaurant_id :: string
  res_dish_name :: string

record ai_data =
  results :: "ai_result list"

text \<open>\<^verbatim>\<open>aiResponse\<close>: a missing (falsy) \<^verbatim>\<open>data\<close> is \<^const>\<open>None\<close>.\<close>

record ai_response =
  status :: string
  data :: "ai_data option"

subsection \<open>The catalog projection and the reconciliation (pure part of both handlers)\<close>

text \<open>
  Lines 60--67 and 118--125: \<^verbatim>\<open>restaurants.flatMap((r) => r.dishes.map((d) => ({...})))\<close>.
\<close>

definition dishList ::
  "(('p, 'x) dish_scheme, 'y) restaurant_scheme list \<Rightarrow> 'p flat_record list" where
  "dishList restaurants =
    concat (map (\<lambda>r. map (\<lambda>d.
      \<lparr> restaurant_id = toString (r_id r),
        restaurant_name = r_name r,
        dish_name = d_name d,
        dish_price = d_price d \<rparr>) (dishes r)) restaurants)"

text \<open>Lines 79--81 and 146--148. \<^verbatim>\<open>NaN\<close> is a member of the set that equals no id.\<close>

definition matchedRestaurantIds :: "ai_result list \<Rightarrow> int option set" where
  "matchedRestaurantIds rs = set (map (\<lambda>r. parseInt (res_restaurant_id r)) rs)"

text \<open>Lines 83--85 and 150--152: the template string \<^verbatim>\<open>`${r.restaurant_id}-${r.dish_name}`\<close>.\<close>

definition matchedDishes :: "ai_result list \<Rightarrow> string set" where
  "matchedDishes rs = set (map (\<lambda>r. res_restaurant_id r @ ''-'' @ res_dish_name r) rs)"

text \<open>The key \<^verbatim>\<open>`${r.id}-${d.name}`\<close> looked up for a dish of the catalog (lines 91 and 158).\<close>

definition dish_key :: "('d, 'y) restaurant_scheme \<Rightarrow> ('p, 'x) dish_scheme \<Rightarrow> string" where
  "dish_key r d = toString (r_id r) @ ''-'' @ d_name d"

text \<open>
  Lines 87--98 and 154--165: \<^verbatim>\<open>restaurants.filter(...).map(...)\<close>. The call of
  \<^verbatim>\<open>plainToInstance\<close> that follows turns the copies into instances of the class the
  restaurants already have, element by element; it is the identity here.
\<close>

definition matchedRestaurants ::
  "(('p, 'x) dish_scheme, 'y) restaurant_scheme list \<Rightarrow> ai_result list
    \<Rightarrow> (('p, 'x) dish_scheme, 'y) restaurant_scheme list" where
  "matchedRestaurants restaurants rs =
    map (\<lambda>r. r\<lparr>dishes := filter (\<lambda>d. dish_key r d \<in> matchedDishes rs) (dishes r)\<rparr>)
      (filter (\<lambda>r. Some (r_id r) \<in> matchedRestaurantIds rs) restaurants)"

text \<open>
  Lines 74--100 and 141--167, the code after the engine has answered: the early
  \<^verbatim>\<open>return []\<close> for \<^verbatim>\<open>aiResponse.status !== 'success' || !aiResponse.data\<close>, and the
  reconciliation otherwise. The two handlers contain the same statements.
\<close>

definition reconcile ::
  "(('p, 'x) dish_scheme, 'y) restaurant_scheme list \<Rightarrow> ai_response
    \<Rightarrow> (('p, 'x) dish_scheme, 'y) restaurant_scheme list" where
  "reconcile restaurants aiResponse =
    (if status aiResponse \<noteq> ''success'' then []
     else case data aiResponse of
       None \<Rightarrow> []
     | Some dt \<Rightarrow> matchedRestaurants restaurants (results dt))"

subsection \<open>Collaborators, effects and errors\<close>

text \<open>
  Whatever is thrown or rejected is a value of \<open>error\<close>: the controller's own
  \<^verbatim>\<open>BadRequestException\<close>, or a value raised by a collaborator (the service, the engine,
  the file system), which the controller never inspects.
\<close>

datatype error = BadRequestException string | Thrown string

text \<open>\<^verbatim>\<open>Express.Multer.File\<close>, the two fields the handler reads.\<close>

record upload =
  originalname :: string
  buffer :: string

text \<open>
  Modelled from the spec: \<^verbatim>\<open>ImageSearchDto\<close> carries an optional text, an optional
  preference string and an optional result-count limit (a number).
\<close>

record image_search_dto =
  body_text :: "string option"
  body_preferences :: "string option"
  body_limit :: "int option"

text \<open>
  The arguments of one call \<^verbatim>\<open>engine.search(text, imagePath, preferences, limit)\<close>;
  an argument that the call does not pass is \<^const>\<open>None\<close>.
\<close>

record search_args =
  arg_text :: string
  arg_imagePath :: "string option"
  arg_preferences :: "string option"
  arg_limit :: "int option"

text \<open>The calls the handlers make to their collaborators, in the order they are made.\<close>

datatype 'p event =
    FindAll
  | WriteFileSync string string
  | Search "'p flat_record list" search_args
  | ExistsSync string
  | UnlinkSync string

text \<open>
  The world a request runs in: the files (path to content) and the log of calls made.
\<close>

record 'p world =
  files :: "string \<rightharpoonup> string"
  calls :: "'p event list"

text \<open>
  The behaviour of the collaborators during one request: what \<^verbatim>\<open>restaurantService.findAll()\<close>
  resolves or rejects with, the value of \<^verbatim>\<open>Date.now()\<close>, what the engine (holding the
  injected \<^verbatim>\<open>restaurantData\<close>) answers to a call and what it does to the files meanwhile,
  and the errors with which \<^verbatim>\<open>fs.writeFileSync\<close> and \<^verbatim>\<open>fs.unlinkSync\<close> fail on a path.
\<close>

record ('p, 'x, 'y) env =
  findAll :: "error + (('p, 'x) dish_scheme, 'y) restaurant_scheme list"
  now :: nat
  search :: "'p flat_record list \<Rightarrow> search_args \<Rightarrow> (string \<rightharpoonup> string)
    \<Rightarrow> (error + ai_response) \<times> (string \<rightharpoonup> string)"
  writeFileSync_error :: "string \<Rightarrow> error option"
  unlinkSync_error :: "string \<Rightarrow> error option"

definition record_call :: "'p event \<Rightarrow> 'p world \<Rightarrow> 'p world" where
  "record_call ev w = w\<lparr>calls := calls w @ [ev]\<rparr>"

definition writeFileSync ::
  "('p, 'x, 'y) env \<Rightarrow> string \<Rightarrow> string \<Rightarrow> 'p world \<Rightarrow> (error + unit) \<times> 'p world" where
  "writeFileSync en path content w =
    (let w1 = record_call (WriteFileSync path content) w
     in case writeFileSync_error en path of
          Some e \<Rightarrow> (Inl e, w1)
        | None \<Rightarrow> (Inr (), w1\<lparr>files := (files w1)(path \<mapsto> content)\<rparr>))"

definition existsSync :: "string \<Rightarrow> 'p world \<Rightarrow> bool \<times> 'p world" where
  "existsSync path w = (files w path \<noteq> None, record_call (ExistsSync path) w)"

text \<open>\<^verbatim>\<open>fs.unlinkSync\<close> throws on a path that does not exist, and whenever the removal fails.\<close>

definition unlinkSync ::
  "('p, 'x, 'y) env \<Rightarrow> string \<Rightarrow> 'p world \<Rightarrow> (error + unit) \<times> 'p world" where
  "unlinkSync en path w =
    (let w1 = record_call (UnlinkSync path) w
     in if files w1 path = None then (Inl (Thrown ''ENOENT''), w1)
        else case unlinkSync_error en path of
          Some e \<Rightarrow> (Inl e, w1)
        | None \<Rightarrow> (Inr (), w1\<lparr>files := (files w1)(path := None)\<rparr>))"

text \<open>\<^verbatim>\<open>await engine.search(...)\<close> on the engine that holds \<^verbatim>\<open>dishList\<close>.\<close>

definition engine_search ::
  "('p, 'x, 'y) env \<Rightarrow> 'p flat_record list \<Rightarrow> search_args \<Rightarrow> 'p world
    \<Rightarrow> (error + ai_response) \<times> 'p world" where
  "engine_search en restaurantData args w =
    (let w1 = record_call (Search restaurantData args) w
     in case search en restaurantData args (files w1) of
          (outcome, fs) \<Rightarrow> (outcome, w1\<lparr>files := fs\<rparr>))"

text \<open>
  JavaScript's \<^verbatim>\<open>try { ... } finally { ... }\<close>: the \<^verbatim>\<open>finally\<close> block runs after the
  \<^verbatim>\<open>try\<close> block however that one ended, and when the \<^verbatim>\<open>finally\<close> block throws, its
  error is the outcome of the whole statement.
\<close>

definition try_finally ::
  "('w \<Rightarrow> (error + 'a) \<times> 'w) \<Rightarrow> ('w \<Rightarrow> (error + unit) \<times> 'w) \<Rightarrow> 'w \<Rightarrow> (error + 'a) \<times> 'w" where
  "try_finally block final w =
    (case block w of
       (outcome, w1) \<Rightarrow>
         (case final w1 of
            (Inl e, w2) \<Rightarrow> (Inl e, w2)
          | (Inr u, w2) \<Rightarrow> (outcome, w2)))"

text \<open>\<^verbatim>\<open>a || b\<close> on an optional string and on an optional number.\<close>

definition or_string :: "string option \<Rightarrow> string \<Rightarrow> string" where
  "or_string a b = (case a of None \<Rightarrow> b | Some s \<Rightarrow> if s = [] then b else s)"

definition or_number :: "int option \<Rightarrow> int \<Rightarrow> int" where
  "or_number a b = (case a of None \<Rightarrow> b | Some n \<Rightarrow> if n = 0 then b else n)"

subsection \<open>The handlers\<close>

text \<open>\<^verbatim>\<open>aiSearch\<close>, lines 51--101; the argument is \<^verbatim>\<open>body.text\<close>.\<close>

definition aiSearch ::
  "('p, 'x, 'y) env \<Rightarrow> string \<Rightarrow> 'p world
    \<Rightarrow> (error + (('p, 'x) dish_scheme, 'y) restaurant_scheme list) \<times> 'p world" where
  "aiSearch en text_of_body w =
    (let w1 = record_call FindAll w
     in case findAll en of
          Inl e \<Rightarrow> (Inl e, w1)
        | Inr restaurants \<Rightarrow>
            (case engine_search en (dishList restaurants)
                    \<lparr>arg_text = text_of_body, arg_imagePath = None,
                     arg_preferences = None, arg_limit = None\<rparr> w1 of
               (Inl e, w2) \<Rightarrow> (Inl e, w2)
             | (Inr aiResponse, w2) \<Rightarrow> (Inr (reconcile restaurants aiResponse), w2)))"

text \<open>The name of the staged file, line 130.\<close>

definition tempPath :: "('p, 'x, 'y) env \<Rightarrow> upload \<Rightarrow> string" where
  "tempPath en file = ''temp_'' @ toString (int (now en)) @ ''_'' @ originalname file"

text \<open>The arguments of the call at lines 134--139.\<close>

definition image_search_args :: "string \<Rightarrow> image_search_dto \<Rightarrow> search_args" where
  "image_search_args path body =
    \<lparr>arg_text = or_string (body_text body) [],
     arg_imagePath = Some path,
     arg_preferences = Some (or_string (body_preferences body) []),
     arg_limit = Some (or_number (body_limit body) 10)\<rparr>"

text \<open>The \<^verbatim>\<open>finally\<close> block, lines 168--173.\<close>

definition cleanup :: "('p, 'x, 'y) env \<Rightarrow> string \<Rightarrow> 'p world \<Rightarrow> (error + unit) \<times> 'p world" where
  "cleanup en path w =
    (case existsSync path w of
       (True, w1) \<Rightarrow> unlinkSync en path w1
     | (False, w1) \<Rightarrow> (Inr (), w1))"

text \<open>\<^verbatim>\<open>aiImageSearch\<close>, lines 106--174; a missing upload is \<^const>\<open>None\<close>.\<close>

definition aiImageSearch ::
  "('p, 'x, 'y) env \<Rightarrow> upload option \<Rightarrow> image_search_dto \<Rightarrow> 'p world
    \<Rightarrow> (error + (('p, 'x) dish_scheme, 'y) restaurant_scheme list) \<times> 'p world" where
  "aiImageSearch en file body w =
    (case file of
       None \<Rightarrow> (Inl (BadRequestException ''Image file is required''), w)
     | Some f \<Rightarrow>
         (let w1 = record_call FindAll w
          in case findAll en of
               Inl e \<Rightarrow> (Inl e, w1)
             | Inr restaurants \<Rightarrow>
                 (case writeFileSync en (tempPath en f) (buffer f) w1 of
                    (Inl e, w2) \<Rightarrow> (Inl e, w2)
                  | (Inr u, w2) \<Rightarrow>
                      try_finally
                        (\<lambda>w. case engine_search en (dishList restaurants)
                                    (image_search_args (tempPath en f) body) w of
                               (Inl e, w3) \<Rightarrow> (Inl e, w3)
                             | (Inr aiResponse, w3) \<Rightarrow>
                                 (Inr (reconcile restaurants aiResponse), w3))
                        (cleanup en (tempPath en f))
                        w2)))"

subsection \<open>Auxiliary predicates on texts\<close>

text \<open>A decimal digit.\<close>

definition is_dec :: "char \<Rightarrow> bool" where
  "is_dec c = (c \<in> set ''0123456789'')"

text \<open>
  A text that is not empty and has no hyphen after its first character. Every decimal
  rendering of an integer is of this form.
\<close>

definition well_delimited :: "string \<Rightarrow> bool" where
  "well_delimited s = (s \<noteq> [] \<and> CHR ''-'' \<notin> set (tl s))"

text \<open>
  A restaurant identity as the engine is given it: a text that can be told from the dish
  name in a joined key and that \<^verbatim>\<open>parseInt\<close>, if it reads an integer from it at all,
  reads as the integer it renders.
\<close>

definition faithful_identity :: "string \<Rightarrow> bool" where
  "faithful_identity s =
    (well_delimited s \<and> (case parseInt s of None \<Rightarrow> True | Some n \<Rightarrow> s = toString n))"

subsection \<open>Sample data\<close>

text \<open>
  A small catalog, an engine answer, an upload and a request body on which the properties
  below are evaluated, and collaborators that are fixed by three parameters: the catalog
  that \<^verbatim>\<open>findAll\<close> resolves with, the answer of the engine as a function of the files it
  finds, and the error (if any) with which \<^verbatim>\<open>unlinkSync\<close> fails. \<^verbatim>\<open>Date.now()\<close> is 7 and
  writing a file succeeds.
\<close>

definition sample_catalog :: "int dish restaurant list" where
  "sample_catalog =
    [\<lparr>r_id = 1, r_name = ''A'',
        dishes = [\<lparr>d_name = ''Soup'', d_price = 5\<rparr>, \<lparr>d_name = ''Salad'', d_price = 4\<rparr>]\<rparr>,
     \<lparr>r_id = 2, r_name = ''B'', dishes = [\<lparr>d_name = ''Soup'', d_price = 6\<rparr>]\<rparr>]"

definition soup_response :: ai_response where
  "soup_response =
    \<lparr>status = ''success'',
     data = Some \<lparr>results = [\<lparr>res_restaurant_id = ''1'', res_dish_name = ''Soup''\<rparr>]\<rparr>\<rparr>"

definition sample_world :: "int world" where
  "sample_world = \<lparr>files = Map.empty, calls = []\<rparr>"

definition sample_env ::
  "int dish restaurant list \<Rightarrow> ((string \<rightharpoonup> string) \<Rightarrow> (error + ai_response) \<times> (string \<rightharpoonup> string))
    \<Rightarrow> error option \<Rightarrow> (int, unit, unit) env" where
  "sample_env restaurants answer unlink_error =
    \<lparr>findAll = Inr restaurants, now = 7, search = (\<lambda>restaurantData args. answer),
     writeFileSync_error = (\<lambda>path. None), unlinkSync_error = (\<lambda>path. unlink_error)\<rparr>"

definition sample_upload :: upload where
  "sample_upload = \<lparr>originalname = ''soup.png'', buffer = ''PNG''\<rparr>"

definition sample_body :: image_search_dto where
  "sample_body = \<lparr>body_text = None, body_preferences = None, body_limit = None\<rparr>"

section \<open>Properties\<close>

subsection \<open>Rendering an integer and parsing it back\<close>

lemma below_ten: "d < 10 \<Longrightarrow> d = 0 \<or> d = 1 \<or> d = 2 \<or> d = 3 \<or> d = 4 \<or> d = 5 \<or> d = 6 \<or> d = 7 \<or> d = 8 \<or> d = (9::nat)"
  by arith

lemma digit_value_digit_char: "d < 10 \<Longrightarrow> digit_value (digit_char d) = Some d"
  by (drule below_ten, elim disjE) (simp_all add: digit_value_def digit_table_def digit_char_def)

lemma is_dec_digit_char: "d < 10 \<Longrightarrow> is_dec (digit_char d)"
  by (drule below_ten, elim disjE) (simp_all add: digit_char_def is_dec_def)

lemma is_dec_cases:
  "is_dec c \<Longrightarrow> c = CHR ''0'' \<or> c = CHR ''1'' \<or> c = CHR ''2'' \<or> c = CHR ''3'' \<or> c = CHR ''4''
    \<or> c = CHR ''5'' \<or> c = CHR ''6'' \<or> c = CHR ''7'' \<or> c = CHR ''8'' \<or> c = CHR ''9''"
  by (simp add: is_dec_def)

lemma is_dec_facts:
  assumes "is_dec c"
  shows "is_radix_digit 10 c" "\<not> is_white_space c" "c \<noteq> CHR ''-''" "c \<noteq> CHR ''+''"
    "c \<noteq> CHR ''x''" "c \<noteq> CHR ''X''"
  using is_dec_cases[OF assms]
  by (elim disjE; simp add: is_radix_digit_def digit_value_def digit_table_def is_white_space_def)+

lemma minus_not_digit: "\<not> is_radix_digit 10 (CHR ''-'')"
  by (simp add: is_radix_digit_def digit_value_def digit_table_def)

lemma nat_digits_is_dec: "\<forall>c\<in>set (nat_digits n). is_dec c"
proof (induction n rule: nat_digits.induct)
  case (1 n)
  show ?case
  proof (cases "n < 10")
    case True
    then show ?thesis by (subst nat_digits.simps) (simp add: is_dec_digit_char)
  next
    case False
    with 1 show ?thesis by (subst nat_digits.simps) (auto simp: is_dec_digit_char)
  qed
qed

lemma nat_digits_not_Nil: "nat_digits n \<noteq> []"
  by (subst nat_digits.simps) simp

lemma digits_value_snoc:
  "digits_value R (Z @ [c]) = digits_value R Z * R + (case digit_value c of None \<Rightarrow> 0 | Some v \<Rightarrow> v)"
  by (simp add: digits_value_def)

lemma digits_value_nat_digits: "digits_value 10 (nat_digits n) = n"
proof (induction n rule: nat_digits.induct)
  case (1 n)
  show ?case
  proof (cases "n < 10")
    case True
    then show ?thesis
      by (subst nat_digits.simps) (simp add: digits_value_def digit_value_digit_char)
  next
    case False
    with 1 have "digits_value 10 (nat_digits (n div 10)) = n div 10" by simp
    with False show ?thesis
      by (subst nat_digits.simps) (simp add: digits_value_snoc digit_value_digit_char)
  qed
qed

lemma no_hex_prefix:
  assumes ne: "ds \<noteq> []" and dec: "\<forall>c\<in>set ds. is_dec c"
    and tail: "tail = [] \<or> hd tail = CHR ''-''"
  shows "take 2 (ds @ tail) \<noteq> ''0x'' \<and> take 2 (ds @ tail) \<noteq> ''0X''"
proof -
  define L where "L = take 2 (ds @ tail)"
  from ne obtain d ds' where ds: "ds = d # ds'" by (cases ds) auto
  from dec ds have d: "is_dec d" by simp
  have A: "CHR ''x'' \<notin> set L \<and> CHR ''X'' \<notin> set L"
  proof (cases ds')
    case Nil
    with ds tail show ?thesis
      unfolding L_def using is_dec_facts(5,6)[OF d] by (cases tail) auto
  next
    case (Cons e es)
    with dec ds have "is_dec e" by simp
    with ds Cons show ?thesis
      unfolding L_def using is_dec_facts(5,6)[OF d] is_dec_facts(5,6)[of e] by auto
  qed
  have "L \<noteq> ''0x''"
  proof
    assume "L = ''0x''"
    then have "CHR ''x'' \<in> set L" by simp
    with A show False by simp
  qed
  moreover have "L \<noteq> ''0X''"
  proof
    assume "L = ''0X''"
    then have "CHR ''X'' \<in> set L" by simp
    with A show False by simp
  qed
  ultimately show ?thesis unfolding L_def by simp
qed

lemma parseInt_decimal:
  assumes ne: "ds \<noteq> []" and dec: "\<forall>c\<in>set ds. is_dec c"
    and tail: "tail = [] \<or> hd tail = CHR ''-''"
  shows "parseInt (ds @ tail) = Some (int (digits_value 10 ds))"
proof -
  from ne obtain d ds' where ds: "ds = d # ds'" by (cases ds) auto
  from dec ds have d: "is_dec d" by simp
  have S: "dropWhile is_white_space (ds @ tail) = ds @ tail"
    using ds is_dec_facts(2)[OF d] by simp
  have nohex: "take 2 (ds @ tail) \<noteq> ''0x''" "take 2 (ds @ tail) \<noteq> ''0X''"
    using no_hex_prefix[OF ne dec tail] by simp_all
  have Z: "takeWhile (is_radix_digit 10) (ds @ tail) = ds"
  proof -
    have "takeWhile (is_radix_digit 10) tail = []"
      using tail minus_not_digit by (cases tail) auto
    moreover have "\<forall>c\<in>set ds. is_radix_digit 10 c" using dec is_dec_facts(1) by blast
    ultimately show ?thesis by (simp del: takeWhile_append2 add: takeWhile_append2)
  qed
  have hd: "hd (ds @ tail) = d" using ds by simp
  show ?thesis
    unfolding parseInt_def Let_def S
    using nohex Z ne hd is_dec_facts(3,4)[OF d] by simp
qed

lemma parseInt_negative:
  assumes ne: "ds \<noteq> []" and dec: "\<forall>c\<in>set ds. is_dec c"
    and tail: "tail = [] \<or> hd tail = CHR ''-''"
  shows "parseInt (CHR ''-'' # ds @ tail) = Some (- int (digits_value 10 ds))"
proof -
  from ne obtain d ds' where ds: "ds = d # ds'" by (cases ds) auto
  from dec ds have d: "is_dec d" by simp
  have S: "dropWhile is_white_space (CHR ''-'' # ds @ tail) = CHR ''-'' # ds @ tail"
    by (simp add: is_white_space_def)
  have nohex: "take 2 (ds @ tail) \<noteq> ''0x''" "take 2 (ds @ tail) \<noteq> ''0X''"
    using no_hex_prefix[OF ne dec tail] by simp_all
  have Z: "takeWhile (is_radix_digit 10) (ds @ tail) = ds"
  proof -
    have "takeWhile (is_radix_digit 10) tail = []"
      using tail minus_not_digit by (cases tail) auto
    moreover have "\<forall>c\<in>set ds. is_radix_digit 10 c" using dec is_dec_facts(1) by blast
    ultimately show ?thesis by (simp del: takeWhile_append2 add: takeWhile_append2)
  qed
  show ?thesis
    unfolding parseInt_def Let_def S
    using nohex Z ne by simp
qed

lemma parseInt_toString_append:
  assumes "tail = [] \<or> hd tail = CHR ''-''"
  shows "parseInt (toString n @ tail) = Some n"
proof (cases "n < 0")
  case True
  then show ?thesis
    using parseInt_negative[OF nat_digits_not_Nil nat_digits_is_dec assms, of "nat (- n)"]
    by (simp add: toString_def digits_value_nat_digits)
next
  case False
  then show ?thesis
    using parseInt_decimal[OF nat_digits_not_Nil nat_digits_is_dec assms, of "nat n"]
    by (simp add: toString_def digits_value_nat_digits)
qed

lemma parseInt_toString: "parseInt (toString n) = Some n"
  using parseInt_toString_append[of "[]" n] by simp

subsection \<open>Keys and evaluation at small numbers\<close>

lemma split_at_hyphen:
  assumes "CHR ''-'' \<notin> set a" "CHR ''-'' \<notin> set b" "a @ CHR ''-'' # x = b @ CHR ''-'' # y"
  shows "a = b \<and> x = y"
  using assms
proof (induction a arbitrary: b)
  case Nil
  then show ?case by (cases b) auto
next
  case (Cons c a)
  then show ?case by (cases b) auto
qed

lemma well_delimited_toString: "well_delimited (toString n)"
proof -
  have "CHR ''-'' \<notin> set (nat_digits k)" for k
    using nat_digits_is_dec[of k] is_dec_facts(3) by blast
  moreover have "nat_digits k = d # ds \<Longrightarrow> CHR ''-'' \<notin> set ds" for k d ds
    using calculation[of k] by auto
  ultimately show ?thesis
    using nat_digits_not_Nil[of "nat n"]
    by (cases "nat_digits (nat n)") (auto simp: well_delimited_def toString_def)
qed

lemma key_unique:
  assumes "well_delimited a" "well_delimited b" "a @ ''-'' @ x = b @ ''-'' @ y"
  shows "a = b \<and> x = y"
proof -
  from assms(1) obtain c as where a: "a = c # as" "CHR ''-'' \<notin> set as"
    by (cases a) (auto simp: well_delimited_def)
  from assms(2) obtain d bs where b: "b = d # bs" "CHR ''-'' \<notin> set bs"
    by (cases b) (auto simp: well_delimited_def)
  from assms(3) a b have "c = d" "as @ CHR ''-'' # x = bs @ CHR ''-'' # y" by simp_all
  with split_at_hyphen[OF a(2) b(2)] a b show ?thesis by simp
qed

lemma matchedRestaurants_member:
  assumes "out \<in> set (matchedRestaurants restaurants rs)"
  shows "\<exists>r\<in>set restaurants. out = r\<lparr>dishes := dishes out\<rparr>
           \<and> Some (r_id r) \<in> matchedRestaurantIds rs
           \<and> dishes out = filter (\<lambda>d. dish_key r d \<in> matchedDishes rs) (dishes r)"
  using assms by (auto simp: matchedRestaurants_def)

lemma dish_key_update [simp]: "dish_key (r\<lparr>dishes := ds\<rparr>) d = dish_key r d"
  by (simp add: dish_key_def)


lemma toString_1: "toString 1 = ''1''"
  by (simp add: toString_def nat_digits.simps digit_char_def)

lemma toString_2: "toString 2 = ''2''"
  by (simp add: toString_def nat_digits.simps digit_char_def)

lemma parseInt_1: "parseInt ''1'' = Some 1"
  using parseInt_toString[of 1] by (simp add: toString_1)

lemma parseInt_1_hyphen: "parseInt (''1-'' @ rest) = Some 1"
  using parseInt_toString_append[of "CHR ''-'' # rest" 1] by (simp add: toString_1)

lemma parseInt_01: "parseInt ''01'' = Some 1"
  using parseInt_decimal[of "''01''" "[]"]
  by (simp add: is_dec_def digits_value_def digit_value_def digit_table_def)


subsection \<open>Dishes are matched by restaurant and name\<close>

text \<open>
  Claim C1, as the code has it. The key of a match is the text
  \<^verbatim>\<open>`${r.restaurant_id}-${r.dish_name}`\<close>, so the pair is recovered from the key only when
  the hyphen that joins the two parts can be told from a hyphen inside the identity.
  For every catalog and every engine match list in which each match's restaurant identity
  is a non-empty text with no hyphen after its first character (every decimal rendering of
  an integer id, the form in which the projection hands the identities to the engine, is
  such a text), a dish of a restaurant appears in the reconciled output only if the pair
  (that restaurant's identity as text, that dish's name) is one of the matches; the dish is
  a dish of the catalog restaurant with that identity. So a match that names one
  restaurant never brings in a dish of the same name of another restaurant.
\<close>

theorem matched_dish_has_matching_pair:
  assumes "\<forall>m\<in>set rs. well_delimited (res_restaurant_id m)"
    and "out \<in> set (matchedRestaurants restaurants rs)"
    and "d \<in> set (dishes out)"
  shows "(toString (r_id out), d_name d) \<in> set (map (\<lambda>m. (res_restaurant_id m, res_dish_name m)) rs)
    \<and> (\<exists>r\<in>set restaurants. r_id r = r_id out \<and> d \<in> set (dishes r))"
proof -
  from matchedRestaurants_member[OF assms(2)] obtain r where
    r: "r \<in> set restaurants" "out = r\<lparr>dishes := dishes out\<rparr>"
      "dishes out = filter (\<lambda>d. dish_key r d \<in> matchedDishes rs) (dishes r)" by blast
  from assms(3) have "d \<in> set (filter (\<lambda>d. dish_key r d \<in> matchedDishes rs) (dishes r))"
    by (subst r(3)[symmetric])
  then have d: "d \<in> set (dishes r)" "dish_key r d \<in> matchedDishes rs"
    by simp_all
  then obtain m where m: "m \<in> set rs"
    "toString (r_id r) @ ''-'' @ d_name d = res_restaurant_id m @ ''-'' @ res_dish_name m"
    by (auto simp: matchedDishes_def dish_key_def)
  from assms(1) m(1) have "well_delimited (res_restaurant_id m)" by blast
  from key_unique[OF well_delimited_toString this m(2)]
  have eq: "res_restaurant_id m = toString (r_id r)" "res_dish_name m = d_name d" by simp_all
  have id: "r_id out = r_id r" by (subst r(2)) simp
  from m(1) have "(res_restaurant_id m, res_dish_name m)
      \<in> set (map (\<lambda>m. (res_restaurant_id m, res_dish_name m)) rs)" by simp
  with eq id have "(toString (r_id out), d_name d)
      \<in> set (map (\<lambda>m. (res_restaurant_id m, res_dish_name m)) rs)" by simp
  moreover from r(1) id d(1) have "\<exists>r\<in>set restaurants. r_id r = r_id out \<and> d \<in> set (dishes r)"
    by auto
  ultimately show ?thesis by simp
qed

text \<open>
  The scenario of the specification: restaurant A (id 1) with Soup and Salad, restaurant B
  (id 2) with Soup, and the single match (\<open>1\<close>, Soup). The output is A with its Soup only.
\<close>

theorem matched_dish_has_matching_pair_witness:
  "(toString 1, ''Soup'') \<in> set (map (\<lambda>m. (res_restaurant_id m, res_dish_name m))
       [\<lparr>res_restaurant_id = ''1'', res_dish_name = ''Soup''\<rparr>])
   \<and> (\<exists>r\<in>set [\<lparr>r_id = 1, r_name = ''A'',
            dishes = [\<lparr>d_name = ''Soup'', d_price = 5::int\<rparr>, \<lparr>d_name = ''Salad'', d_price = 4\<rparr>]\<rparr>,
          \<lparr>r_id = 2, r_name = ''B'', dishes = [\<lparr>d_name = ''Soup'', d_price = 6\<rparr>]\<rparr>].
        r_id r = 1 \<and> \<lparr>d_name = ''Soup'', d_price = 5\<rparr> \<in> set (dishes r))
   \<and> matchedRestaurants
      [\<lparr>r_id = 1, r_name = ''A'',
         dishes = [\<lparr>d_name = ''Soup'', d_price = 5::int\<rparr>, \<lparr>d_name = ''Salad'', d_price = 4\<rparr>]\<rparr>,
       \<lparr>r_id = 2, r_name = ''B'', dishes = [\<lparr>d_name = ''Soup'', d_price = 6\<rparr>]\<rparr>]
      [\<lparr>res_restaurant_id = ''1'', res_dish_name = ''Soup''\<rparr>]
    = [\<lparr>r_id = 1, r_name = ''A'', dishes = [\<lparr>d_name = ''Soup'', d_price = 5\<rparr>]\<rparr>]"
proof -
  have out: "matchedRestaurants
      [\<lparr>r_id = 1, r_name = ''A'',
         dishes = [\<lparr>d_name = ''Soup'', d_price = 5::int\<rparr>, \<lparr>d_name = ''Salad'', d_price = 4\<rparr>]\<rparr>,
       \<lparr>r_id = 2, r_name = ''B'', dishes = [\<lparr>d_name = ''Soup'', d_price = 6\<rparr>]\<rparr>]
      [\<lparr>res_restaurant_id = ''1'', res_dish_name = ''Soup''\<rparr>]
    = [\<lparr>r_id = 1, r_name = ''A'', dishes = [\<lparr>d_name = ''Soup'', d_price = 5\<rparr>]\<rparr>]"
    by (simp add: matchedRestaurants_def matchedRestaurantIds_def matchedDishes_def
        dish_key_def parseInt_1 toString_1 toString_2)
  have wd: "\<forall>m\<in>set [\<lparr>res_restaurant_id = ''1'', res_dish_name = ''Soup''\<rparr>].
      well_delimited (res_restaurant_id m)"
    by (simp add: well_delimited_def)
  from matched_dish_has_matching_pair[OF wd,
      of "\<lparr>r_id = 1, r_name = ''A'', dishes = [\<lparr>d_name = ''Soup'', d_price = 5::int\<rparr>]\<rparr>"
         "[\<lparr>r_id = 1, r_name = ''A'',
             dishes = [\<lparr>d_name = ''Soup'', d_price = 5::int\<rparr>, \<lparr>d_name = ''Salad'', d_price = 4\<rparr>]\<rparr>,
           \<lparr>r_id = 2, r_name = ''B'', dishes = [\<lparr>d_name = ''Soup'', d_price = 6\<rparr>]\<rparr>]"
         "\<lparr>d_name = ''Soup'', d_price = 5::int\<rparr>"]
  show ?thesis unfolding out by simp
qed

text \<open>
  Without the restriction the property fails: the match (\<open>1-2\<close>, Soup) has the key
  \<^verbatim>\<open>1-2-Soup\<close>, \<^verbatim>\<open>parseInt\<close> reads its identity as 1, and the dish \<^verbatim>\<open>2-Soup\<close> of
  restaurant 1 has the same key. The dish is in the output although the pair
  (\<open>1\<close>, \<^verbatim>\<open>2-Soup\<close>) is no match.
\<close>

theorem hyphenated_identity_counterexample:
  "matchedRestaurants
      [\<lparr>r_id = 1, r_name = ''A'', dishes = [\<lparr>d_name = ''2-Soup'', d_price = 5::int\<rparr>]\<rparr>]
      [\<lparr>res_restaurant_id = ''1-2'', res_dish_name = ''Soup''\<rparr>]
    = [\<lparr>r_id = 1, r_name = ''A'', dishes = [\<lparr>d_name = ''2-Soup'', d_price = 5\<rparr>]\<rparr>]
   \<and> (toString 1, ''2-Soup'') \<notin> set (map (\<lambda>m. (res_restaurant_id m, res_dish_name m))
       [\<lparr>res_restaurant_id = ''1-2'', res_dish_name = ''Soup''\<rparr>])"
  using parseInt_1_hyphen[of "''2''"]
  by (simp add: matchedRestaurants_def matchedRestaurantIds_def matchedDishes_def
        dish_key_def toString_1)

subsection \<open>The catalog projection\<close>

lemma dishList_Nil: "dishList [] = []"
  by (simp add: dishList_def)

lemma dishList_Cons:
  "dishList (r # restaurants) =
    map (\<lambda>d. \<lparr>restaurant_id = toString (r_id r), restaurant_name = r_name r,
               dish_name = d_name d, dish_price = d_price d\<rparr>) (dishes r)
    @ dishList restaurants"
  by (simp add: dishList_def)

lemma dishList_append: "dishList (xs @ ys) = dishList xs @ dishList ys"
  by (simp add: dishList_def)

lemma length_dishList:
  "length (dishList restaurants) = sum_list (map (\<lambda>r. length (dishes r)) restaurants)"
  by (induction restaurants) (simp_all add: dishList_Nil dishList_Cons)

lemma dishList_records:
  "list_all2 (\<lambda>rec (r, d). restaurant_id rec = toString (r_id r)
        \<and> parseInt (restaurant_id rec) = Some (r_id r)
        \<and> restaurant_name rec = r_name r \<and> dish_name rec = d_name d \<and> dish_price rec = d_price d)
     (dishList restaurants) (concat (map (\<lambda>r. map (Pair r) (dishes r)) restaurants))"
proof (induction restaurants)
  case Nil
  show ?case by (simp add: dishList_Nil)
next
  case (Cons r restaurants)
  have "list_all2 (\<lambda>rec (r, d). restaurant_id rec = toString (r_id r)
        \<and> parseInt (restaurant_id rec) = Some (r_id r)
        \<and> restaurant_name rec = r_name r \<and> dish_name rec = d_name d \<and> dish_price rec = d_price d)
     (map (\<lambda>d. \<lparr>restaurant_id = toString (r_id r), restaurant_name = r_name r,
               dish_name = d_name d, dish_price = d_price d\<rparr>) (dishes r))
     (map (Pair r) (dishes r))"
    by (simp add: list_all2_map1 list_all2_map2 list_all2_same parseInt_toString)
  with Cons show ?case
    by (simp add: dishList_Cons list_all2_appendI)
qed

text \<open>
  Claim C3. For every catalog the projection \<open>dishList\<close> (the \<^verbatim>\<open>flatMap\<close> of both
  handlers) has as many records as the restaurants have dishes in total; its records are,
  position by position, the dishes of the catalog in catalog order, each with the identity
  of its restaurant rendered as text (a text that \<^verbatim>\<open>parseInt\<close> reads back as that identity),
  the restaurant's name, the dish's name and the dish's price unchanged; and a restaurant
  without dishes contributes no record.
\<close>

theorem dishList_one_record_per_dish:
  "length (dishList restaurants) = sum_list (map (\<lambda>r. length (dishes r)) restaurants)
   \<and> list_all2 (\<lambda>rec (r, d). restaurant_id rec = toString (r_id r)
        \<and> parseInt (restaurant_id rec) = Some (r_id r)
        \<and> restaurant_name rec = r_name r \<and> dish_name rec = d_name d \<and> dish_price rec = d_price d)
     (dishList restaurants) (concat (map (\<lambda>r. map (Pair r) (dishes r)) restaurants))
   \<and> (dishes r0 = [] \<longrightarrow> dishList (before @ r0 # after) = dishList (before @ after))"
  by (simp add: length_dishList dishList_records dishList_append dishList_Cons)

theorem dishList_one_record_per_dish_witness:
  "length (dishList [\<lparr>r_id = 1, r_name = ''A'',
         dishes = [\<lparr>d_name = ''Soup'', d_price = 5::int\<rparr>, \<lparr>d_name = ''Salad'', d_price = 4\<rparr>]\<rparr>,
       \<lparr>r_id = 3, r_name = ''C'', dishes = []\<rparr>,
       \<lparr>r_id = 2, r_name = ''B'', dishes = [\<lparr>d_name = ''Soup'', d_price = 6\<rparr>]\<rparr>]) = 3
   \<and> dishList [\<lparr>r_id = 1, r_name = ''A'',
         dishes = [\<lparr>d_name = ''Soup'', d_price = 5::int\<rparr>, \<lparr>d_name = ''Salad'', d_price = 4\<rparr>]\<rparr>,
       \<lparr>r_id = 3, r_name = ''C'', dishes = []\<rparr>,
       \<lparr>r_id = 2, r_name = ''B'', dishes = [\<lparr>d_name = ''Soup'', d_price = 6\<rparr>]\<rparr>]
     = dishList [\<lparr>r_id = 1, r_name = ''A'',
         dishes = [\<lparr>d_name = ''Soup'', d_price = 5::int\<rparr>, \<lparr>d_name = ''Salad'', d_price = 4\<rparr>]\<rparr>,
       \<lparr>r_id = 2, r_name = ''B'', dishes = [\<lparr>d_name = ''Soup'', d_price = 6\<rparr>]\<rparr>]"
  using dishList_one_record_per_dish[
      of "[\<lparr>r_id = 1, r_name = ''A'',
         dishes = [\<lparr>d_name = ''Soup'', d_price = 5::int\<rparr>, \<lparr>d_name = ''Salad'', d_price = 4\<rparr>]\<rparr>,
       \<lparr>r_id = 3, r_name = ''C'', dishes = []\<rparr>,
       \<lparr>r_id = 2, r_name = ''B'', dishes = [\<lparr>d_name = ''Soup'', d_price = 6\<rparr>]\<rparr>]"
      "\<lparr>r_id = 3, r_name = ''C'', dishes = []\<rparr>"
      "[\<lparr>r_id = 1, r_name = ''A'',
         dishes = [\<lparr>d_name = ''Soup'', d_price = 5::int\<rparr>, \<lparr>d_name = ''Salad'', d_price = 4\<rparr>]\<rparr>]"
      "[\<lparr>r_id = 2, r_name = ''B'', dishes = [\<lparr>d_name = ''Soup'', d_price = 6\<rparr>]\<rparr>]"]
  by (simp add: dishList_def)

subsection \<open>Order of the reconciled output\<close>

text \<open>
  Claim C6. For every catalog and every match list, the reconciled output is, position by
  position, a subsequence of the catalog in which every restaurant is the catalog's
  restaurant with a subsequence of its dishes: restaurants keep the catalog order and dishes
  keep the order they have in their restaurant. Two match lists with the same matches, in
  whatever order the engine ranked them, give the same output.
\<close>

theorem matchedRestaurants_keeps_order:
  "(\<exists>kept. subseq kept restaurants
      \<and> list_all2 (\<lambda>out r. out = r\<lparr>dishes := dishes out\<rparr> \<and> subseq (dishes out) (dishes r))
           (matchedRestaurants restaurants rs) kept)
   \<and> (set rs' = set rs \<longrightarrow> matchedRestaurants restaurants rs' = matchedRestaurants restaurants rs)"
proof -
  let ?kept = "filter (\<lambda>r. Some (r_id r) \<in> matchedRestaurantIds rs) restaurants"
  have "subseq ?kept restaurants" by (rule subseq_filter_left)
  moreover have "list_all2 (\<lambda>out r. out = r\<lparr>dishes := dishes out\<rparr> \<and> subseq (dishes out) (dishes r))
           (matchedRestaurants restaurants rs) ?kept"
    unfolding matchedRestaurants_def
    by (simp add: list_all2_map1 list_all2_same subseq_filter_left)
  moreover have "set rs' = set rs \<longrightarrow> matchedRestaurants restaurants rs' = matchedRestaurants restaurants rs"
    by (simp add: matchedRestaurants_def matchedRestaurantIds_def matchedDishes_def)
  ultimately show ?thesis by blast
qed

text \<open>
  The dishes d1, d2, d3 with the engine ranking d3 before d1: the output holds d1, d3 in
  this order.
\<close>

theorem matchedRestaurants_keeps_order_witness:
  "(\<exists>kept. subseq kept [\<lparr>r_id = 1, r_name = ''A'', dishes = [\<lparr>d_name = ''d1'', d_price = 1::int\<rparr>,
          \<lparr>d_name = ''d2'', d_price = 2\<rparr>, \<lparr>d_name = ''d3'', d_price = 3\<rparr>]\<rparr>]
      \<and> list_all2 (\<lambda>out r. out = r\<lparr>dishes := dishes out\<rparr> \<and> subseq (dishes out) (dishes r))
           [\<lparr>r_id = 1, r_name = ''A'', dishes = [\<lparr>d_name = ''d1'', d_price = 1::int\<rparr>,
              \<lparr>d_name = ''d3'', d_price = 3\<rparr>]\<rparr>] kept)
   \<and> matchedRestaurants [\<lparr>r_id = 1, r_name = ''A'', dishes = [\<lparr>d_name = ''d1'', d_price = 1::int\<rparr>,
          \<lparr>d_name = ''d2'', d_price = 2\<rparr>, \<lparr>d_name = ''d3'', d_price = 3\<rparr>]\<rparr>]
        [\<lparr>res_restaurant_id = ''1'', res_dish_name = ''d1''\<rparr>,
         \<lparr>res_restaurant_id = ''1'', res_dish_name = ''d3''\<rparr>]
     = [\<lparr>r_id = 1, r_name = ''A'', dishes = [\<lparr>d_name = ''d1'', d_price = 1::int\<rparr>,
              \<lparr>d_name = ''d3'', d_price = 3\<rparr>]\<rparr>]"
proof -
  have out: "matchedRestaurants [\<lparr>r_id = 1, r_name = ''A'', dishes = [\<lparr>d_name = ''d1'', d_price = 1::int\<rparr>,
          \<lparr>d_name = ''d2'', d_price = 2\<rparr>, \<lparr>d_name = ''d3'', d_price = 3\<rparr>]\<rparr>]
        [\<lparr>res_restaurant_id = ''1'', res_dish_name = ''d3''\<rparr>,
         \<lparr>res_restaurant_id = ''1'', res_dish_name = ''d1''\<rparr>]
     = [\<lparr>r_id = 1, r_name = ''A'', dishes = [\<lparr>d_name = ''d1'', d_price = 1::int\<rparr>,
              \<lparr>d_name = ''d3'', d_price = 3\<rparr>]\<rparr>]"
    by (simp add: matchedRestaurants_def matchedRestaurantIds_def matchedDishes_def
        dish_key_def parseInt_1 toString_1)
  have perm: "set [\<lparr>res_restaurant_id = ''1'', res_dish_name = ''d1''\<rparr>,
         \<lparr>res_restaurant_id = ''1'', res_dish_name = ''d3''\<rparr>]
     = set [\<lparr>res_restaurant_id = ''1'', res_dish_name = ''d3''\<rparr>,
         \<lparr>res_restaurant_id = ''1'', res_dish_name = ''d1''\<rparr>]"
    by auto
  from matchedRestaurants_keeps_order[
      of "[\<lparr>r_id = 1, r_name = ''A'', dishes = [\<lparr>d_name = ''d1'', d_price = 1::int\<rparr>,
          \<lparr>d_name = ''d2'', d_price = 2\<rparr>, \<lparr>d_name = ''d3'', d_price = 3\<rparr>]\<rparr>]"
         "[\<lparr>res_restaurant_id = ''1'', res_dish_name = ''d3''\<rparr>,
           \<lparr>res_restaurant_id = ''1'', res_dish_name = ''d1''\<rparr>]"
         "[\<lparr>res_restaurant_id = ''1'', res_dish_name = ''d1''\<rparr>,
           \<lparr>res_restaurant_id = ''1'', res_dish_name = ''d3''\<rparr>]"]
  show ?thesis unfolding out using perm by simp
qed

subsection \<open>Restaurants that are matched without a matched dish\<close>

text \<open>
  Claim C10. Whenever the restaurant identity of some match parses (\<^verbatim>\<open>parseInt\<close>) to the id
  of a catalog restaurant and no key of a match equals the key of a dish of that restaurant,
  the restaurant is in the reconciled output with an empty dish list.
\<close>

theorem matched_restaurant_without_matched_dish:
  assumes "r \<in> set restaurants" and "m \<in> set rs"
    and "parseInt (res_restaurant_id m) = Some (r_id r)"
    and "\<forall>d\<in>set (dishes r). dish_key r d \<notin> matchedDishes rs"
  shows "r\<lparr>dishes := []\<rparr> \<in> set (matchedRestaurants restaurants rs)"
proof -
  from assms(2,3) have "Some (r_id r) \<in> matchedRestaurantIds rs"
    by (force simp: matchedRestaurantIds_def)
  moreover from assms(4) have "filter (\<lambda>d. dish_key r d \<in> matchedDishes rs) (dishes r) = []"
    by (simp add: filter_empty_conv)
  ultimately show ?thesis
    using assms(1) unfolding matchedRestaurants_def by force
qed

text \<open>
  The match (\<open>01\<close>, Soup) selects restaurant 1, since \<^verbatim>\<open>parseInt\<close> reads \<open>01\<close> as 1, and
  its key \<^verbatim>\<open>01-Soup\<close> is not the key \<^verbatim>\<open>1-Soup\<close> of the restaurant's dish.
\<close>

theorem matched_restaurant_without_matched_dish_witness:
  "\<lparr>r_id = 1, r_name = ''A'', dishes = []\<rparr>
    \<in> set (matchedRestaurants
        [\<lparr>r_id = 1, r_name = ''A'', dishes = [\<lparr>d_name = ''Soup'', d_price = 5::int\<rparr>]\<rparr>]
        [\<lparr>res_restaurant_id = ''01'', res_dish_name = ''Soup''\<rparr>])"
  using matched_restaurant_without_matched_dish[
      of "\<lparr>r_id = 1, r_name = ''A'', dishes = [\<lparr>d_name = ''Soup'', d_price = 5::int\<rparr>]\<rparr>"
         "[\<lparr>r_id = 1, r_name = ''A'', dishes = [\<lparr>d_name = ''Soup'', d_price = 5::int\<rparr>]\<rparr>]"
         "\<lparr>res_restaurant_id = ''01'', res_dish_name = ''Soup''\<rparr>"
         "[\<lparr>res_restaurant_id = ''01'', res_dish_name = ''Soup''\<rparr>]"]
  by (simp add: parseInt_01 dish_key_def matchedDishes_def toString_1)

subsection \<open>What the handlers do\<close>

lemma reconcile_empty:
  "status aiResponse \<noteq> ''success'' \<or> data aiResponse = None \<Longrightarrow> reconcile restaurants aiResponse = []"
  by (auto simp: reconcile_def)

lemma reconcile_success:
  "status aiResponse = ''success'' \<Longrightarrow> data aiResponse = Some dt
    \<Longrightarrow> reconcile restaurants aiResponse = matchedRestaurants restaurants (results dt)"
  by (simp add: reconcile_def)

lemma matchedRestaurants_Nil_iff:
  "matchedRestaurants restaurants rs = []
    \<longleftrightarrow> (\<forall>r\<in>set restaurants. Some (r_id r) \<notin> matchedRestaurantIds rs)"
  by (simp add: matchedRestaurants_def filter_empty_conv)

text \<open>What \<open>aiSearch\<close> does once the catalog is read.\<close>

lemma aiSearch_run:
  assumes "findAll en = Inr restaurants"
    and "search en (dishList restaurants)
          \<lparr>arg_text = q, arg_imagePath = None, arg_preferences = None, arg_limit = None\<rparr>
          (files w) = (outcome, fs)"
  shows "aiSearch en q w =
    ((case outcome of Inl e \<Rightarrow> Inl e | Inr aiResponse \<Rightarrow> Inr (reconcile restaurants aiResponse)),
     \<lparr>files = fs,
      calls = calls w @ [FindAll, Search (dishList restaurants)
          \<lparr>arg_text = q, arg_imagePath = None, arg_preferences = None, arg_limit = None\<rparr>]\<rparr>)"
  using assms
  by (cases outcome) (simp_all add: aiSearch_def engine_search_def record_call_def)

lemma aiSearch_findAll_fails:
  "findAll en = Inl e \<Longrightarrow> aiSearch en q w = (Inl e, record_call FindAll w)"
  by (simp add: aiSearch_def)

text \<open>What \<open>aiImageSearch\<close> does once the upload is staged.\<close>

lemma aiImageSearch_run:
  assumes "findAll en = Inr restaurants"
    and "writeFileSync_error en (tempPath en f) = None"
    and "search en (dishList restaurants) (image_search_args (tempPath en f) body)
          ((files w)(tempPath en f \<mapsto> buffer f)) = (outcome, fs)"
  shows "aiImageSearch en (Some f) body w =
    (let primary = (case outcome of Inl e \<Rightarrow> Inl e
                    | Inr aiResponse \<Rightarrow> Inr (reconcile restaurants aiResponse));
         log = calls w @ [FindAll, WriteFileSync (tempPath en f) (buffer f),
                  Search (dishList restaurants) (image_search_args (tempPath en f) body),
                  ExistsSync (tempPath en f)]
     in if fs (tempPath en f) = None then (primary, \<lparr>files = fs, calls = log\<rparr>)
        else case unlinkSync_error en (tempPath en f) of
               Some e \<Rightarrow> (Inl e, \<lparr>files = fs, calls = log @ [UnlinkSync (tempPath en f)]\<rparr>)
             | None \<Rightarrow> (primary, \<lparr>files = fs((tempPath en f) := None),
                                  calls = log @ [UnlinkSync (tempPath en f)]\<rparr>))"
  using assms
  by (cases outcome; cases "unlinkSync_error en (tempPath en f)")
     (auto simp: aiImageSearch_def writeFileSync_def engine_search_def record_call_def
        try_finally_def cleanup_def existsSync_def unlinkSync_def Let_def)

lemma aiImageSearch_findAll_fails:
  "findAll en = Inl e \<Longrightarrow> aiImageSearch en (Some f) body w = (Inl e, record_call FindAll w)"
  by (simp add: aiImageSearch_def)

lemma aiImageSearch_write_fails:
  "findAll en = Inr restaurants \<Longrightarrow> writeFileSync_error en (tempPath en f) = Some e
    \<Longrightarrow> aiImageSearch en (Some f) body w
      = (Inl e, \<lparr>files = files w, calls = calls w @ [FindAll, WriteFileSync (tempPath en f) (buffer f)]\<rparr>)"
  by (simp add: aiImageSearch_def writeFileSync_def record_call_def)

lemma reconcile_member:
  assumes "out \<in> set (reconcile restaurants aiResponse)"
  shows "status aiResponse = ''success'' \<and> (\<exists>dt. data aiResponse = Some dt
      \<and> Some (r_id out) \<in> matchedRestaurantIds (results dt)
      \<and> (\<forall>d\<in>set (dishes out). dish_key out d \<in> matchedDishes (results dt))
      \<and> (\<exists>r\<in>set restaurants. out = r\<lparr>dishes := dishes out\<rparr> \<and> set (dishes out) \<subseteq> set (dishes r)))"
proof -
  from assms have st: "status aiResponse = ''success''"
    by (auto simp: reconcile_def split: if_splits)
  from assms st obtain dt where dt: "data aiResponse = Some dt"
    "out \<in> set (matchedRestaurants restaurants (results dt))"
    by (cases "data aiResponse") (auto simp: reconcile_def)
  from matchedRestaurants_member[OF dt(2)] obtain r where
    r: "r \<in> set restaurants" "out = r\<lparr>dishes := dishes out\<rparr>"
      "Some (r_id r) \<in> matchedRestaurantIds (results dt)"
      "dishes out = filter (\<lambda>d. dish_key r d \<in> matchedDishes (results dt)) (dishes r)" by blast
  have id: "r_id out = r_id r" by (subst r(2)) simp
  have key: "dish_key out d = dish_key r d" for d :: "('a, 'b) dish_scheme"
    by (simp add: dish_key_def id)
  have "\<forall>d\<in>set (dishes out). dish_key r d \<in> matchedDishes (results dt)"
    by (subst r(4)) simp
  moreover have "set (dishes out) \<subseteq> set (dishes r)" by (subst r(4)) auto
  ultimately show ?thesis using st dt(1) r(1,2,3) id key by auto
qed

lemma aiSearch_Inr_own:
  assumes "aiSearch en q w = (Inr output, w')"
  shows "\<exists>restaurants aiResponse fs. findAll en = Inr restaurants
      \<and> search en (dishList restaurants)
            \<lparr>arg_text = q, arg_imagePath = None, arg_preferences = None, arg_limit = None\<rparr>
            (files w) = (Inr aiResponse, fs)
      \<and> output = reconcile restaurants aiResponse"
proof (cases "findAll en")
  case (Inl e)
  with assms show ?thesis by (simp add: aiSearch_findAll_fails)
next
  case (Inr restaurants)
  obtain outcome fs where s: "search en (dishList restaurants)
      \<lparr>arg_text = q, arg_imagePath = None, arg_preferences = None, arg_limit = None\<rparr> (files w)
      = (outcome, fs)" by (cases "search en (dishList restaurants)
      \<lparr>arg_text = q, arg_imagePath = None, arg_preferences = None, arg_limit = None\<rparr> (files w)")
  from assms aiSearch_run[OF Inr s] obtain aiResponse where
    "outcome = Inr aiResponse" "output = reconcile restaurants aiResponse"
    by (cases outcome) auto
  with Inr s show ?thesis by blast
qed

lemma aiImageSearch_Inr_own:
  assumes "aiImageSearch en (Some f) body w = (Inr output, w')"
  shows "\<exists>restaurants aiResponse fs. findAll en = Inr restaurants
      \<and> search en (dishList restaurants) (image_search_args (tempPath en f) body)
            ((files w)(tempPath en f \<mapsto> buffer f)) = (Inr aiResponse, fs)
      \<and> output = reconcile restaurants aiResponse"
proof -
  from assms obtain restaurants where R: "findAll en = Inr restaurants"
    by (cases "findAll en") (auto simp: aiImageSearch_findAll_fails)
  from assms R have W: "writeFileSync_error en (tempPath en f) = None"
    by (cases "writeFileSync_error en (tempPath en f)") (auto simp: aiImageSearch_write_fails)
  obtain outcome fs where s: "search en (dishList restaurants)
      (image_search_args (tempPath en f) body) ((files w)(tempPath en f \<mapsto> buffer f))
      = (outcome, fs)" by (cases "search en (dishList restaurants)
      (image_search_args (tempPath en f) body) ((files w)(tempPath en f \<mapsto> buffer f))")
  from assms aiImageSearch_run[OF R W s] obtain aiResponse where
    "outcome = Inr aiResponse" "output = reconcile restaurants aiResponse"
    by (cases outcome) (auto simp: Let_def split: if_splits option.splits)
  with R s show ?thesis by blast
qed

lemma reconcile_Nil_iff:
  "reconcile restaurants aiResponse = [] \<longleftrightarrow>
    status aiResponse \<noteq> ''success'' \<or> data aiResponse = None
    \<or> (\<exists>dt. data aiResponse = Some dt
          \<and> (\<forall>r\<in>set restaurants. Some (r_id r) \<notin> matchedRestaurantIds (results dt)))"
  by (cases "data aiResponse") (auto simp: reconcile_def matchedRestaurants_Nil_iff)

lemma reconcile_sample:
  "reconcile sample_catalog soup_response
    = [\<lparr>r_id = 1, r_name = ''A'', dishes = [\<lparr>d_name = ''Soup'', d_price = 5\<rparr>]\<rparr>]"
  by (simp add: reconcile_def sample_catalog_def soup_response_def matchedRestaurants_def
      matchedRestaurantIds_def matchedDishes_def dish_key_def parseInt_1 toString_1 toString_2)

lemma tempPath_sample: "tempPath (sample_env restaurants answer unlink_error) sample_upload = ''temp_7_soup.png''"
  by (simp add: tempPath_def sample_env_def sample_upload_def toString_def nat_digits.simps digit_char_def)

lemma files_sample_world: "files sample_world = Map.empty"
  by (simp add: sample_world_def)

lemma sample_env_fields:
  "findAll (sample_env restaurants answer unlink_error) = Inr restaurants"
  "search (sample_env restaurants answer unlink_error) restaurantData args = answer"
  "writeFileSync_error (sample_env restaurants answer unlink_error) path = None"
  "unlinkSync_error (sample_env restaurants answer unlink_error) path = unlink_error"
  by (simp_all add: sample_env_def)

lemma buffer_sample: "buffer sample_upload = ''PNG''"
  by (simp add: sample_upload_def)

subsection \<open>The output of both handlers lies within the match sets\<close>

lemma faithful_identity_toString: "faithful_identity (toString n)"
  by (simp add: faithful_identity_def well_delimited_toString parseInt_toString)

lemma identity_among_matches:
  assumes "Some n \<in> matchedRestaurantIds rs"
    and "\<forall>m\<in>set rs. faithful_identity (res_restaurant_id m)"
  shows "toString n \<in> set (map res_restaurant_id rs)"
proof -
  from assms(1) obtain m where m: "m \<in> set rs" "parseInt (res_restaurant_id m) = Some n"
    by (auto simp: matchedRestaurantIds_def)
  from assms(2) m(1) have "faithful_identity (res_restaurant_id m)" by blast
  with m(2) have "res_restaurant_id m = toString n" by (simp add: faithful_identity_def)
  with m(1) show ?thesis by force
qed

lemma pair_among_matches:
  assumes "dish_key r d \<in> matchedDishes rs"
    and "\<forall>m\<in>set rs. faithful_identity (res_restaurant_id m)"
  shows "(toString (r_id r), d_name d) \<in> set (map (\<lambda>m. (res_restaurant_id m, res_dish_name m)) rs)"
proof -
  from assms(1) obtain m where m: "m \<in> set rs"
    "toString (r_id r) @ ''-'' @ d_name d = res_restaurant_id m @ ''-'' @ res_dish_name m"
    by (auto simp: matchedDishes_def dish_key_def)
  from assms(2) m(1) have "well_delimited (res_restaurant_id m)"
    by (simp add: faithful_identity_def)
  from key_unique[OF well_delimited_toString this m(2)]
  have "res_restaurant_id m = toString (r_id r)" "res_dish_name m = d_name d" by simp_all
  with m(1) show ?thesis by force
qed

lemma faithful_identity_1: "faithful_identity ''1''"
  using faithful_identity_toString[of 1] by (simp add: toString_1)

text \<open>
  Claim C2, as the code has it. Whenever \<open>aiSearch\<close> or \<open>aiImageSearch\<close> returns a list,
  the handler's own call of the engine (with the handler's arguments, on the records of the
  catalog that \<^verbatim>\<open>findAll\<close> delivered) was answered with status \<^verbatim>\<open>success\<close> and data, and
  every restaurant of the list is a restaurant of that catalog holding some of its own
  dishes. Its id is the number that \<^verbatim>\<open>parseInt\<close> reads from the identity of some match, and
  the joined key of each of its dishes is the joined key of some match. If moreover every
  match's restaurant identity is faithful, that is, a non-empty text with no hyphen after
  its first character that is the decimal rendering of the integer \<^verbatim>\<open>parseInt\<close> reads from
  it whenever \<^verbatim>\<open>parseInt\<close> reads one (as is every identity \<^verbatim>\<open>r.id.toString()\<close> handed to the
  engine), then the restaurant's identity as text is one of the identities that appear in
  the matches, and for each of its dishes the pair of that identity and the dish's name is
  one of the pairs that appear in the matches.
\<close>

theorem search_output_within_match_sets:
  assumes "aiSearch en q w = (Inr output, w')
        \<and> args = \<lparr>arg_text = q, arg_imagePath = None, arg_preferences = None, arg_limit = None\<rparr>
        \<and> before = files w
      \<or> aiImageSearch en (Some f) body w = (Inr output, w')
        \<and> args = image_search_args (tempPath en f) body
        \<and> before = (files w)(tempPath en f \<mapsto> buffer f)"
    and "out \<in> set output"
  shows "\<exists>restaurants aiResponse fs dt.
      findAll en = Inr restaurants
      \<and> search en (dishList restaurants) args before = (Inr aiResponse, fs)
      \<and> status aiResponse = ''success'' \<and> data aiResponse = Some dt
      \<and> (\<exists>r\<in>set restaurants. out = r\<lparr>dishes := dishes out\<rparr> \<and> set (dishes out) \<subseteq> set (dishes r))
      \<and> Some (r_id out) \<in> matchedRestaurantIds (results dt)
      \<and> (\<forall>d\<in>set (dishes out). dish_key out d \<in> matchedDishes (results dt))
      \<and> ((\<forall>m\<in>set (results dt). faithful_identity (res_restaurant_id m))
          \<longrightarrow> toString (r_id out) \<in> set (map res_restaurant_id (results dt))
              \<and> (\<forall>d\<in>set (dishes out). (toString (r_id out), d_name d)
                    \<in> set (map (\<lambda>m. (res_restaurant_id m, res_dish_name m)) (results dt))))"
proof -
  from assms(1) obtain restaurants aiResponse fs where
    a: "findAll en = Inr restaurants"
      "search en (dishList restaurants) args before = (Inr aiResponse, fs)"
      "output = reconcile restaurants aiResponse"
    using aiSearch_Inr_own[of en q w "output" w'] aiImageSearch_Inr_own[of en f body w "output" w']
    by blast
  from assms(2) a(3) have "out \<in> set (reconcile restaurants aiResponse)" by simp
  from reconcile_member[OF this] obtain dt where
    m: "status aiResponse = ''success''" "data aiResponse = Some dt"
      "Some (r_id out) \<in> matchedRestaurantIds (results dt)"
      "\<forall>d\<in>set (dishes out). dish_key out d \<in> matchedDishes (results dt)"
      "\<exists>r\<in>set restaurants. out = r\<lparr>dishes := dishes out\<rparr> \<and> set (dishes out) \<subseteq> set (dishes r)"
    by blast
  have "toString (r_id out) \<in> set (map res_restaurant_id (results dt))
      \<and> (\<forall>d\<in>set (dishes out). (toString (r_id out), d_name d)
            \<in> set (map (\<lambda>m. (res_restaurant_id m, res_dish_name m)) (results dt)))"
    if "\<forall>m\<in>set (results dt). faithful_identity (res_restaurant_id m)"
    using identity_among_matches[OF m(3) that] pair_among_matches[OF _ that] m(4) by blast
  with a(1,2) m show ?thesis by blast
qed

text \<open>The scenario of the specification, run through \<open>aiSearch\<close>.\<close>

theorem search_output_within_match_sets_witness:
  "fst (aiSearch (sample_env sample_catalog (\<lambda>fs. (Inr soup_response, fs)) None) ''soup'' sample_world)
      = Inr [\<lparr>r_id = 1, r_name = ''A'', dishes = [\<lparr>d_name = ''Soup'', d_price = 5\<rparr>]\<rparr>]
   \<and> toString 1 \<in> set (map res_restaurant_id [\<lparr>res_restaurant_id = ''1'', res_dish_name = ''Soup''\<rparr>])
   \<and> (toString 1, ''Soup'') \<in> set (map (\<lambda>m. (res_restaurant_id m, res_dish_name m))
          [\<lparr>res_restaurant_id = ''1'', res_dish_name = ''Soup''\<rparr>])"
proof -
  let ?en = "sample_env sample_catalog (\<lambda>fs. (Inr soup_response, fs)) None"
  let ?out = "\<lparr>r_id = 1, r_name = ''A'', dishes = [\<lparr>d_name = ''Soup'', d_price = 5::int\<rparr>]\<rparr>"
  let ?args = "\<lparr>arg_text = ''soup'', arg_imagePath = None, arg_preferences = None, arg_limit = None\<rparr>"
  have run: "aiSearch ?en ''soup'' sample_world
      = (Inr [?out], \<lparr>files = Map.empty, calls = [FindAll, Search (dishList sample_catalog) ?args]\<rparr>)"
    by (simp add: aiSearch_def engine_search_def record_call_def sample_env_def sample_world_def
        reconcile_sample)
  have "aiSearch ?en ''soup'' sample_world
      = (Inr [?out], \<lparr>files = Map.empty, calls = [FindAll, Search (dishList sample_catalog) ?args]\<rparr>)
      \<and> ?args = \<lparr>arg_text = ''soup'', arg_imagePath = None, arg_preferences = None, arg_limit = None\<rparr>
      \<and> files sample_world = files sample_world
    \<or> aiImageSearch ?en (Some sample_upload) sample_body sample_world
      = (Inr [?out], \<lparr>files = Map.empty, calls = [FindAll, Search (dishList sample_catalog) ?args]\<rparr>)
      \<and> ?args = image_search_args (tempPath ?en sample_upload) sample_body
      \<and> files sample_world = (files sample_world)(tempPath ?en sample_upload \<mapsto> buffer sample_upload)"
    using run by simp
  from search_output_within_match_sets[OF this, of ?out] obtain aiResponse fs dt where
    r: "search ?en (dishList sample_catalog) ?args (files sample_world) = (Inr aiResponse, fs)"
      "data aiResponse = Some dt"
      "(\<forall>m\<in>set (results dt). faithful_identity (res_restaurant_id m))
          \<longrightarrow> toString (r_id ?out) \<in> set (map res_restaurant_id (results dt))
              \<and> (\<forall>d\<in>set (dishes ?out). (toString (r_id ?out), d_name d)
                    \<in> set (map (\<lambda>m. (res_restaurant_id m, res_dish_name m)) (results dt)))"
    by (auto simp: sample_env_fields)
  from r(1) have "aiResponse = soup_response" by (simp add: sample_env_fields)
  with r(2) have dt: "results dt = [\<lparr>res_restaurant_id = ''1'', res_dish_name = ''Soup''\<rparr>]"
    by (auto simp: soup_response_def)
  from r(3) show ?thesis unfolding dt using run faithful_identity_1 by simp
qed

text \<open>
  For arbitrary match sets the claim fails. The match (\<open>1-2\<close>, Soup) makes \<open>aiSearch\<close>
  return restaurant 1 with its dish \<^verbatim>\<open>2-Soup\<close>, although the identity \<open>1\<close> appears in no
  match and the pair (\<open>1\<close>, \<^verbatim>\<open>2-Soup\<close>) is no match. The match (\<open>01\<close>, Soup) makes
  \<open>aiImageSearch\<close> return restaurant 1, with no dish, although the identity \<open>1\<close> appears in
  no match.
\<close>

theorem unfaithful_identity_counterexample:
  "fst (aiSearch
          (sample_env [\<lparr>r_id = 1, r_name = ''A'', dishes = [\<lparr>d_name = ''2-Soup'', d_price = 5\<rparr>]\<rparr>]
            (\<lambda>fs. (Inr \<lparr>status = ''success'',
                data = Some \<lparr>results = [\<lparr>res_restaurant_id = ''1-2'', res_dish_name = ''Soup''\<rparr>]\<rparr>\<rparr>, fs))
            None)
          ''soup'' sample_world)
      = Inr [\<lparr>r_id = 1, r_name = ''A'', dishes = [\<lparr>d_name = ''2-Soup'', d_price = 5\<rparr>]\<rparr>]
   \<and> toString 1 \<notin> set (map res_restaurant_id [\<lparr>res_restaurant_id = ''1-2'', res_dish_name = ''Soup''\<rparr>])
   \<and> (toString 1, ''2-Soup'') \<notin> set (map (\<lambda>m. (res_restaurant_id m, res_dish_name m))
          [\<lparr>res_restaurant_id = ''1-2'', res_dish_name = ''Soup''\<rparr>])
   \<and> fst (aiImageSearch
          (sample_env [\<lparr>r_id = 1, r_name = ''A'', dishes = [\<lparr>d_name = ''Soup'', d_price = 5\<rparr>]\<rparr>]
            (\<lambda>fs. (Inr \<lparr>status = ''success'',
                data = Some \<lparr>results = [\<lparr>res_restaurant_id = ''01'', res_dish_name = ''Soup''\<rparr>]\<rparr>\<rparr>, fs))
            None)
          (Some sample_upload) sample_body sample_world)
      = Inr [\<lparr>r_id = 1, r_name = ''A'', dishes = []\<rparr>]
   \<and> toString 1 \<notin> set (map res_restaurant_id [\<lparr>res_restaurant_id = ''01'', res_dish_name = ''Soup''\<rparr>])"
  using parseInt_1_hyphen[of "''2''"]
  by (simp add: aiSearch_def aiImageSearch_def writeFileSync_def engine_search_def record_call_def
      try_finally_def cleanup_def existsSync_def unlinkSync_def sample_env_fields
      tempPath_sample sample_world_def buffer_sample
      reconcile_def matchedRestaurants_def matchedRestaurantIds_def matchedDishes_def
      dish_key_def toString_1 parseInt_01)

subsection \<open>Answers that give an empty result\<close>

text \<open>
  Claim C4, as the code has it. Let the catalog be read and let the engine answer with a
  response. If the status of the response is not \<^verbatim>\<open>success\<close> or the response carries no
  data, \<open>aiSearch\<close> returns the empty list and no error, and so does \<open>aiImageSearch\<close>
  provided the upload was staged and the removal of the staged file does not fail (the file
  is gone already, or \<^verbatim>\<open>unlinkSync\<close> succeeds). These are not the only responses with an
  empty result: a response with status \<^verbatim>\<open>success\<close> and data is reconciled with the catalog,
  and the result is empty exactly when no match's identity parses to the id of a catalog
  restaurant, for instance when the list of matches is empty.
\<close>

theorem empty_result_conditions:
  assumes "findAll en = Inr restaurants"
  shows "(search en (dishList restaurants)
            \<lparr>arg_text = q, arg_imagePath = None, arg_preferences = None, arg_limit = None\<rparr>
            (files w) = (Inr aiResponse, fs)
          \<longrightarrow> (status aiResponse \<noteq> ''success'' \<or> data aiResponse = None
                  \<longrightarrow> fst (aiSearch en q w) = Inr [])
              \<and> (fst (aiSearch en q w) = Inr [] \<longleftrightarrow>
                    status aiResponse \<noteq> ''success'' \<or> data aiResponse = None
                    \<or> (\<exists>dt. data aiResponse = Some dt
                        \<and> (\<forall>r\<in>set restaurants. Some (r_id r) \<notin> matchedRestaurantIds (results dt)))))
     \<and> (writeFileSync_error en (tempPath en f) = None
          \<and> search en (dishList restaurants) (image_search_args (tempPath en f) body)
               ((files w)(tempPath en f \<mapsto> buffer f)) = (Inr aiResponse, fs)
          \<and> (fs (tempPath en f) = None \<or> unlinkSync_error en (tempPath en f) = None)
          \<longrightarrow> (status aiResponse \<noteq> ''success'' \<or> data aiResponse = None
                  \<longrightarrow> fst (aiImageSearch en (Some f) body w) = Inr [])
              \<and> (fst (aiImageSearch en (Some f) body w) = Inr [] \<longleftrightarrow>
                    status aiResponse \<noteq> ''success'' \<or> data aiResponse = None
                    \<or> (\<exists>dt. data aiResponse = Some dt
                        \<and> (\<forall>r\<in>set restaurants. Some (r_id r) \<notin> matchedRestaurantIds (results dt)))))"
proof -
  have text_part: "fst (aiSearch en q w) = Inr (reconcile restaurants aiResponse)"
    if "search en (dishList restaurants)
            \<lparr>arg_text = q, arg_imagePath = None, arg_preferences = None, arg_limit = None\<rparr>
            (files w) = (Inr aiResponse, fs)"
    using aiSearch_run[OF assms that] by simp
  have image_part: "fst (aiImageSearch en (Some f) body w) = Inr (reconcile restaurants aiResponse)"
    if "writeFileSync_error en (tempPath en f) = None"
      and "search en (dishList restaurants) (image_search_args (tempPath en f) body)
               ((files w)(tempPath en f \<mapsto> buffer f)) = (Inr aiResponse, fs)"
      and "fs (tempPath en f) = None \<or> unlinkSync_error en (tempPath en f) = None"
    using aiImageSearch_run[OF assms that(1,2)] that(3) by (auto simp: Let_def)
  show ?thesis
    using text_part image_part reconcile_Nil_iff[of restaurants aiResponse]
      reconcile_empty[of aiResponse restaurants]
    by (intro conjI impI) (simp_all only: sum.inject, simp_all)
qed

text \<open>An answer with status \<^verbatim>\<open>error\<close> and no data, for both handlers.\<close>

theorem empty_result_conditions_witness:
  "fst (aiSearch (sample_env sample_catalog (\<lambda>fs. (Inr \<lparr>status = ''error'', data = None\<rparr>, fs)) None)
          ''soup'' sample_world) = Inr []
   \<and> fst (aiImageSearch (sample_env sample_catalog (\<lambda>fs. (Inr \<lparr>status = ''error'', data = None\<rparr>, fs)) None)
          (Some sample_upload) sample_body sample_world) = Inr []"
  using empty_result_conditions[
      of "sample_env sample_catalog (\<lambda>fs. (Inr \<lparr>status = ''error'', data = None\<rparr>, fs)) None"
         sample_catalog "''soup''" sample_world "\<lparr>status = ''error'', data = None\<rparr>"
         "(files sample_world)(''temp_7_soup.png'' \<mapsto> buffer sample_upload)" sample_upload sample_body]
    empty_result_conditions[
      of "sample_env sample_catalog (\<lambda>fs. (Inr \<lparr>status = ''error'', data = None\<rparr>, fs)) None"
         sample_catalog "''soup''" sample_world "\<lparr>status = ''error'', data = None\<rparr>"
         "files sample_world" sample_upload sample_body]
  by (simp add: sample_env_fields tempPath_sample)

text \<open>
  The claim as stated fails twice. A response with status \<^verbatim>\<open>success\<close> and data whose list
  of matches is empty yields the empty list as well, so a status other than \<^verbatim>\<open>success\<close> or
  missing data is not the only condition. And a response with status \<^verbatim>\<open>error\<close> makes
  \<open>aiImageSearch\<close> fail, not return the empty list, when \<^verbatim>\<open>unlinkSync\<close> throws in the
  \<^verbatim>\<open>finally\<close> block.
\<close>

theorem empty_result_counterexample:
  "fst (aiSearch (sample_env sample_catalog
            (\<lambda>fs. (Inr \<lparr>status = ''success'', data = Some \<lparr>results = []\<rparr>\<rparr>, fs)) None)
          ''soup'' sample_world) = Inr []
   \<and> fst (aiImageSearch (sample_env sample_catalog
            (\<lambda>fs. (Inr \<lparr>status = ''error'', data = None\<rparr>, fs)) (Some (Thrown ''EPERM'')))
          (Some sample_upload) sample_body sample_world) = Inl (Thrown ''EPERM'')"
  by (simp add: aiSearch_def aiImageSearch_def writeFileSync_def engine_search_def record_call_def
      try_finally_def cleanup_def existsSync_def unlinkSync_def sample_env_fields
      tempPath_sample sample_world_def buffer_sample
      reconcile_def matchedRestaurants_def matchedRestaurantIds_def)

subsection \<open>An image search without an image\<close>

text \<open>
  Claim C5. For every request without an upload, \<open>aiImageSearch\<close> fails with the
  \<^verbatim>\<open>BadRequestException\<close> and leaves the world as it was: the log of calls has no new entry,
  so the catalog was not read, no file was written and the engine was not called, and the
  files are unchanged. The outcome does not depend on the collaborators.
\<close>

theorem image_search_requires_image:
  "aiImageSearch en None body w = (Inl (BadRequestException ''Image file is required''), w)"
  by (simp add: aiImageSearch_def)

theorem image_search_requires_image_witness:
  "aiImageSearch (sample_env sample_catalog (\<lambda>fs. (Inr soup_response, fs)) None) None sample_body
      sample_world
    = (Inl (BadRequestException ''Image file is required''), \<lparr>files = Map.empty, calls = []\<rparr>)"
  using image_search_requires_image[
      of "sample_env sample_catalog (\<lambda>fs. (Inr soup_response, fs)) None" sample_body sample_world]
  by (simp add: sample_world_def)

subsection \<open>The staged file\<close>

text \<open>
  Claim C7, as the code has it. For every image search in which the catalog was read and
  the upload was written to its path, and whatever the engine call ended with (an answer
  with matches, an answer without, or an error) and whatever it did to the files, the
  request makes exactly these calls, in this order: \<^verbatim>\<open>findAll\<close>, the write of the staged
  file, the engine call, the existence check of the \<^verbatim>\<open>finally\<close> block and, when the file is
  still there, its removal. So the cleanup runs on every exit path of the engine call. If
  the removal does not fail (\<^verbatim>\<open>unlinkSync\<close> succeeds, or the file was gone already), no file
  exists at the path once the request has completed.
\<close>

theorem staged_file_removed:
  assumes "findAll en = Inr restaurants"
    and "writeFileSync_error en (tempPath en f) = None"
    and "search en (dishList restaurants) (image_search_args (tempPath en f) body)
          ((files w)(tempPath en f \<mapsto> buffer f)) = (outcome, fs)"
  shows "drop (length (calls w)) (calls (snd (aiImageSearch en (Some f) body w)))
      = [FindAll, WriteFileSync (tempPath en f) (buffer f),
         Search (dishList restaurants) (image_search_args (tempPath en f) body),
         ExistsSync (tempPath en f)]
        @ (if fs (tempPath en f) = None then [] else [UnlinkSync (tempPath en f)])
    \<and> (fs (tempPath en f) = None \<or> unlinkSync_error en (tempPath en f) = None
        \<longrightarrow> files (snd (aiImageSearch en (Some f) body w)) (tempPath en f) = None)"
  unfolding aiImageSearch_run[OF assms]
  by (cases "unlinkSync_error en (tempPath en f)") (simp_all add: Let_def)

text \<open>The engine throws; the staged file is removed all the same.\<close>

theorem staged_file_removed_witness:
  "calls (snd (aiImageSearch (sample_env sample_catalog (\<lambda>fs. (Inl (Thrown ''engine down''), fs)) None)
      (Some sample_upload) sample_body sample_world))
    = [FindAll, WriteFileSync ''temp_7_soup.png'' ''PNG'',
       Search (dishList sample_catalog) (image_search_args ''temp_7_soup.png'' sample_body),
       ExistsSync ''temp_7_soup.png'', UnlinkSync ''temp_7_soup.png'']
   \<and> files (snd (aiImageSearch (sample_env sample_catalog (\<lambda>fs. (Inl (Thrown ''engine down''), fs)) None)
      (Some sample_upload) sample_body sample_world)) ''temp_7_soup.png'' = None"
  using staged_file_removed[
      of "sample_env sample_catalog (\<lambda>fs. (Inl (Thrown ''engine down''), fs)) None"
         sample_catalog sample_upload sample_body sample_world "Inl (Thrown ''engine down'')"
         "(files sample_world)(''temp_7_soup.png'' \<mapsto> ''PNG'')"]
  by (simp add: sample_env_fields tempPath_sample buffer_sample sample_world_def)

text \<open>
  When \<^verbatim>\<open>unlinkSync\<close> throws, the staged file is still there after the request: the claim
  does not hold for every request in which the file was written.
\<close>

theorem failed_removal_leaves_file_counterexample:
  "files (snd (aiImageSearch
        (sample_env sample_catalog (\<lambda>fs. (Inr soup_response, fs)) (Some (Thrown ''EPERM'')))
        (Some sample_upload) sample_body sample_world)) ''temp_7_soup.png'' = Some ''PNG''
   \<and> tempPath (sample_env sample_catalog (\<lambda>fs. (Inr soup_response, fs)) (Some (Thrown ''EPERM'')))
        sample_upload = ''temp_7_soup.png''"
proof -
  have "aiImageSearch
        (sample_env sample_catalog (\<lambda>fs. (Inr soup_response, fs)) (Some (Thrown ''EPERM'')))
        (Some sample_upload) sample_body sample_world
      = (Inl (Thrown ''EPERM''),
         \<lparr>files = [''temp_7_soup.png'' \<mapsto> ''PNG''],
          calls = [FindAll, WriteFileSync ''temp_7_soup.png'' ''PNG'',
            Search (dishList sample_catalog) (image_search_args ''temp_7_soup.png'' sample_body),
            ExistsSync ''temp_7_soup.png'', UnlinkSync ''temp_7_soup.png'']\<rparr>)"
    by (simp add: aiImageSearch_def writeFileSync_def engine_search_def record_call_def
        try_finally_def cleanup_def existsSync_def unlinkSync_def sample_env_fields
        tempPath_sample sample_world_def buffer_sample)
  then show ?thesis by (simp add: tempPath_sample)
qed

subsection \<open>The outcome of an image search and the cleanup\<close>

text \<open>
  Claim C8, as the code has it. For every image search in which the upload was staged and
  the engine call ended with some outcome, if the removal of the staged file does not fail
  (the file is no longer there when the \<^verbatim>\<open>finally\<close> block checks, or \<^verbatim>\<open>unlinkSync\<close>
  succeeds), the caller receives the primary outcome: the error of the engine call, or the
  reconciliation of the engine's answer with the catalog.
\<close>

theorem cleanup_keeps_primary_outcome:
  assumes "findAll en = Inr restaurants"
    and "writeFileSync_error en (tempPath en f) = None"
    and "search en (dishList restaurants) (image_search_args (tempPath en f) body)
          ((files w)(tempPath en f \<mapsto> buffer f)) = (outcome, fs)"
    and "fs (tempPath en f) = None \<or> unlinkSync_error en (tempPath en f) = None"
  shows "fst (aiImageSearch en (Some f) body w)
    = (case outcome of Inl e \<Rightarrow> Inl e | Inr aiResponse \<Rightarrow> Inr (reconcile restaurants aiResponse))"
  unfolding aiImageSearch_run[OF assms(1,2,3)] using assms(4) by (auto simp: Let_def)

text \<open>
  An engine that consumes the staged file (so that a failing \<^verbatim>\<open>unlinkSync\<close> is never
  called): the result is the reconciled list. An engine that throws: its error is the result.
\<close>

theorem cleanup_keeps_primary_outcome_witness:
  "fst (aiImageSearch (sample_env sample_catalog (\<lambda>fs. (Inr soup_response, Map.empty)) (Some (Thrown ''EPERM'')))
      (Some sample_upload) sample_body sample_world)
    = Inr [\<lparr>r_id = 1, r_name = ''A'', dishes = [\<lparr>d_name = ''Soup'', d_price = 5\<rparr>]\<rparr>]
   \<and> fst (aiImageSearch (sample_env sample_catalog (\<lambda>fs. (Inl (Thrown ''engine down''), fs)) None)
      (Some sample_upload) sample_body sample_world)
    = Inl (Thrown ''engine down'')"
  using cleanup_keeps_primary_outcome[
      of "sample_env sample_catalog (\<lambda>fs. (Inr soup_response, Map.empty)) (Some (Thrown ''EPERM''))"
         sample_catalog sample_upload sample_body sample_world "Inr soup_response" Map.empty]
    cleanup_keeps_primary_outcome[
      of "sample_env sample_catalog (\<lambda>fs. (Inl (Thrown ''engine down''), fs)) None"
         sample_catalog sample_upload sample_body sample_world "Inl (Thrown ''engine down'')"
         "(files sample_world)(''temp_7_soup.png'' \<mapsto> buffer sample_upload)"]
  by (simp add: sample_env_fields tempPath_sample reconcile_sample)

text \<open>
  When \<^verbatim>\<open>unlinkSync\<close> throws, its error is what the caller receives, in place of the
  reconciled list and in place of the engine's error: the \<^verbatim>\<open>finally\<close> block has no
  handler around the removal.
\<close>

theorem failed_removal_replaces_result_counterexample:
  "fst (aiImageSearch
        (sample_env sample_catalog (\<lambda>fs. (Inr soup_response, fs)) (Some (Thrown ''EPERM'')))
        (Some sample_upload) sample_body sample_world) = Inl (Thrown ''EPERM'')
   \<and> reconcile sample_catalog soup_response
        = [\<lparr>r_id = 1, r_name = ''A'', dishes = [\<lparr>d_name = ''Soup'', d_price = 5\<rparr>]\<rparr>]
   \<and> fst (aiImageSearch
        (sample_env sample_catalog (\<lambda>fs. (Inl (Thrown ''engine down''), fs)) (Some (Thrown ''EPERM'')))
        (Some sample_upload) sample_body sample_world) = Inl (Thrown ''EPERM'')"
  by (simp add: aiImageSearch_def writeFileSync_def engine_search_def record_call_def
        try_finally_def cleanup_def existsSync_def unlinkSync_def sample_env_fields
        tempPath_sample sample_world_def buffer_sample reconcile_sample)

subsection \<open>The default limit\<close>

text \<open>
  Claim C9. For every image search whose body has no limit, every call the request makes to
  the engine passes the limit 10; and the engine is called, with the arguments of lines
  134--139, whenever the upload is present, the catalog is read and the file is staged.
\<close>

theorem image_search_default_limit:
  assumes "body_limit body = None"
  shows "(\<forall>restaurantData args.
        Search restaurantData args
          \<in> set (drop (length (calls w)) (calls (snd (aiImageSearch en file body w))))
        \<longrightarrow> arg_limit args = Some 10)
    \<and> (file = Some f \<and> findAll en = Inr restaurants \<and> writeFileSync_error en (tempPath en f) = None
        \<longrightarrow> Search (dishList restaurants) (image_search_args (tempPath en f) body)
              \<in> set (drop (length (calls w)) (calls (snd (aiImageSearch en file body w))))
            \<and> arg_limit (image_search_args (tempPath en f) body) = Some 10)"
proof -
  have lim: "arg_limit (image_search_args path body) = Some 10" for path
    using assms by (simp add: image_search_args_def or_number_def)
  show ?thesis
  proof (cases "file")
    case None
    then show ?thesis by (simp add: aiImageSearch_def)
  next
    case (Some g)
    show ?thesis
    proof (cases "findAll en")
      case (Inl e)
      with Some show ?thesis by (simp add: aiImageSearch_findAll_fails record_call_def)
    next
      case (Inr rs)
      show ?thesis
      proof (cases "writeFileSync_error en (tempPath en g)")
        case (Some e)
        with \<open>file = Some g\<close> Inr show ?thesis by (auto simp: aiImageSearch_write_fails)
      next
        case None
        obtain outcome fs where s: "search en (dishList rs)
            (image_search_args (tempPath en g) body) ((files w)(tempPath en g \<mapsto> buffer g))
            = (outcome, fs)" by (cases "search en (dishList rs)
            (image_search_args (tempPath en g) body) ((files w)(tempPath en g \<mapsto> buffer g))")
        show ?thesis
          unfolding \<open>file = Some g\<close> aiImageSearch_run[OF Inr None s]
          using Inr lim by (auto simp: Let_def split: option.splits)
      qed
    qed
  qed
qed

theorem image_search_default_limit_witness:
  "Search (dishList sample_catalog) (image_search_args ''temp_7_soup.png'' sample_body)
      \<in> set (calls (snd (aiImageSearch (sample_env sample_catalog (\<lambda>fs. (Inr soup_response, fs)) None)
            (Some sample_upload) sample_body sample_world)))
   \<and> arg_limit (image_search_args ''temp_7_soup.png'' sample_body) = Some 10"
  using image_search_default_limit[
      of sample_body sample_world "sample_env sample_catalog (\<lambda>fs. (Inr soup_response, fs)) None"
         "Some sample_upload" sample_upload sample_catalog]
  by (simp add: sample_env_fields tempPath_sample sample_body_def sample_world_def)

end
